theory Spec2Isabelle
  imports Main
begin

section \<open>The user profile page: src/app/users/[id]/page.tsx\<close>

text \<open>
  The page is one React component. It holds six state variables, starts two fetches
  in an effect that runs once per mounted identifier, and renders a view that is a
  function of the six variables. The embedding follows that shape: the interfaces are
  records, the six \<open>useState\<close> variables are one record that the two fetch
  continuations update, the platform's answers (what \<open>fetch\<close> and
  \<open>res.json()\<close> settle with) are inputs, and the JSX is a datatype of views.
\<close>

subsection \<open>Interfaces (lines 7-32)\<close>

record Geo =
  lat :: string
  lng :: string

record Address =
  street :: string
  suite :: string
  city :: string
  zipcode :: string
  geo :: Geo

record Post =
  post_id :: int
  title :: string
  body :: string

record User =
  user_id :: int
  name :: string
  username :: string
  email :: string
  phone :: string
  website :: string
  address :: Address

subsection \<open>JavaScript values that the page tests and prints\<close>

text \<open>
  A value of type \<open>string | null\<close> or \<open>string | undefined\<close> is a
  \<open>string option\<close>, \<open>None\<close> standing for the absent value. Truthiness is
  JavaScript's: the absent value and the empty string are falsy, every other string is
  truthy. \<open>a && b\<close> yields \<open>a\<close> when \<open>a\<close> is falsy and \<open>b\<close>
  otherwise. \<open>obj?.path\<close> yields undefined when \<open>obj\<close> is null, without
  evaluating the rest of the chain, and never throws. A JSX child \<open>{e}\<close> prints
  nothing for an absent value; a template literal prints the word \<open>undefined\<close>.
\<close>

definition js_truthy :: "string option \<Rightarrow> bool" where
  "js_truthy v = (case v of None \<Rightarrow> False | Some s \<Rightarrow> s \<noteq> [])"

definition js_and :: "string option \<Rightarrow> string option \<Rightarrow> string option" where
  "js_and a b = (if js_truthy a then b else a)"

definition opt_chain :: "'a option \<Rightarrow> ('a \<Rightarrow> 'b) \<Rightarrow> 'b option" where
  "opt_chain obj path = (case obj of None \<Rightarrow> None | Some v \<Rightarrow> Some (path v))"

definition jsx_child :: "string option \<Rightarrow> string" where
  "jsx_child v = (case v of None \<Rightarrow> [] | Some s \<Rightarrow> s)"

definition template_hole :: "string option \<Rightarrow> string" where
  "template_hole v = (case v of None \<Rightarrow> ''undefined'' | Some s \<Rightarrow> s)"

text \<open>
  A template literal made of a fixed text followed by one number, as in
  \<open>`/posts/${post.id}`\<close>. The digits that the platform prints for the number
  are not computed here: the value keeps the text and the number apart.
\<close>

datatype number_template = TemplateNumber string int

subsection \<open>Component state (lines 44-49)\<close>

record state =
  user :: "User option"
  posts :: "Post list"
  loadingUser :: bool
  loadingPosts :: bool
  errorUser :: "string option"
  errorPosts :: "string option"

definition initial_state :: state where
  "initial_state =
     \<lparr>user = None, posts = [], loadingUser = True, loadingPosts = True,
      errorUser = None, errorPosts = None\<rparr>"

subsection \<open>What the platform answers\<close>

text \<open>
  A thrown value is either an instance of \<open>Error\<close>, which has a \<open>message\<close>
  string (the empty string when the error was made without one), or any other value.
  The promise returned by \<open>fetch\<close> either rejects with a thrown value or resolves
  with a response; a response has a status and the result that \<open>res.json()\<close>
  gives when it is called: a rejection or the parsed body. \<open>res.ok\<close> is the
  Fetch standard's: the status is in the range 200 to 299.
\<close>

datatype thrown = ErrorInstance string | PlainValue

record 'a response =
  status :: nat
  json :: "thrown + 'a"

datatype 'a outcome = Rejects thrown | Resolves "'a response"

definition ok :: "'a response \<Rightarrow> bool" where
  "ok res = (200 \<le> status res \<and> status res \<le> 299)"

subsection \<open>The two fetch operations (lines 54-86)\<close>

definition user_url :: "string \<Rightarrow> string" where
  "user_url ident = ''https://jsonplaceholder.typicode.com/users/'' @ ident"

definition posts_url :: "string \<Rightarrow> string" where
  "posts_url ident = ''https://jsonplaceholder.typicode.com/posts?userId='' @ ident"

text \<open>
  The body of the \<open>try\<close> block after the request was issued, common to both
  operations up to the message of the error it throws on a response that is not ok:
  \<open>Inl\<close> is the value thrown, \<open>Inr\<close> the data handed to the setter.
\<close>

definition try_block :: "string \<Rightarrow> 'a outcome \<Rightarrow> thrown + 'a" where
  "try_block failed_message settled =
     (case settled of
        Rejects err \<Rightarrow> Inl err
      | Resolves res \<Rightarrow>
          if \<not> ok res then Inl (ErrorInstance failed_message)
          else (case json res of Inl err \<Rightarrow> Inl err | Inr data \<Rightarrow> Inr data))"

text \<open>The \<open>catch\<close> clause: the text handed to the error setter.\<close>

definition catch_message :: "thrown \<Rightarrow> string" where
  "catch_message err =
     (case err of
        ErrorInstance message \<Rightarrow> message
      | PlainValue \<Rightarrow> ''An unknown error occurred'')"

text \<open>
  The continuation of each operation once its request has settled. The setter calls of
  one continuation run in one synchronous stretch and are applied together, so the
  continuation is one step from state to state; \<open>finally\<close> clears the loading
  flag on every path.
\<close>

definition fetchUser :: "User option outcome \<Rightarrow> state \<Rightarrow> state" where
  "fetchUser settled s =
     (case try_block ''Failed to fetch user'' settled of
        Inr data \<Rightarrow> s\<lparr>user := data\<rparr>
      | Inl err \<Rightarrow> s\<lparr>errorUser := Some (catch_message err)\<rparr>)
     \<lparr>loadingUser := False\<rparr>"

definition fetchPosts :: "Post list outcome \<Rightarrow> state \<Rightarrow> state" where
  "fetchPosts settled s =
     (case try_block ''Failed to fetch posts'' settled of
        Inr data \<Rightarrow> s\<lparr>posts := data\<rparr>
      | Inl err \<Rightarrow> s\<lparr>errorPosts := Some (catch_message err)\<rparr>)
     \<lparr>loadingPosts := False\<rparr>"

subsection \<open>The effect and the life of one mounted view (lines 51-90)\<close>

text \<open>
  The effect returns at once on a falsy identifier (the empty string); otherwise it
  calls \<open>fetchUser()\<close> and then \<open>fetchPosts()\<close>, each of which issues its request
  before it first suspends. The list is the requests issued, in order.
\<close>

definition useEffect :: "string \<Rightarrow> string list" where
  "useEffect ident = (if ident = [] then [] else [user_url ident, posts_url ident])"

text \<open>
  A mounted view: its identifier, its state, the requests issued so far, and which of
  its two promises have not settled yet. A promise settles at most once, and only a
  promise that was created can settle. A re-render with the same identifier leaves the
  dependency array \<open>[id]\<close> unchanged, so the effect does not run again.
\<close>

record view_instance =
  ident :: string
  st :: state
  requests :: "string list"
  userInFlight :: bool
  postsInFlight :: bool

datatype event =
    UserSettles "User option outcome"
  | PostsSettles "Post list outcome"
  | Rerender

definition mount :: "string \<Rightarrow> view_instance" where
  "mount i =
     \<lparr>ident = i, st = initial_state, requests = useEffect i,
      userInFlight = (i \<noteq> []), postsInFlight = (i \<noteq> [])\<rparr>"

fun step :: "event \<Rightarrow> view_instance \<Rightarrow> view_instance" where
  "step (UserSettles settled) v =
     (if userInFlight v then v\<lparr>st := fetchUser settled (st v), userInFlight := False\<rparr>
      else v)"
| "step (PostsSettles settled) v =
     (if postsInFlight v then v\<lparr>st := fetchPosts settled (st v), postsInFlight := False\<rparr>
      else v)"
| "step Rerender v = v"

fun run :: "view_instance \<Rightarrow> event list \<Rightarrow> view_instance" where
  "run v [] = v"
| "run v (e # es) = run (step e v) es"

subsection \<open>The renderer (lines 92-157)\<close>

record profile_card =
  heading :: "string option"
  badge :: "string option"
  email_href :: string
  email_text :: "string option"
  phone_text :: "string option"
  website_href :: string
  website_text :: "string option"
  address_line :: string

datatype map_region = UserMap | MapPlaceholder string

record post_card =
  card_key :: int
  link_href :: number_template
  link_text :: string
  card_body :: string

datatype posts_section =
    PostsSpinner string
  | PostsError string
  | PostsGrid "post_card list"

datatype view =
    UserSpinner string
  | UserError string
  | MainPage profile_card map_region posts_section

definition render_profile :: "User option \<Rightarrow> profile_card" where
  "render_profile u =
     \<lparr>heading = opt_chain u name,
      badge = opt_chain u username,
      email_href = ''mailto:'' @ template_hole (opt_chain u email),
      email_text = opt_chain u email,
      phone_text = opt_chain u phone,
      website_href = ''http://'' @ template_hole (opt_chain u website),
      website_text = opt_chain u website,
      address_line =
        jsx_child (opt_chain u (\<lambda>x. street (address x))) @ '', '' @
        jsx_child (opt_chain u (\<lambda>x. suite (address x))) @ '', '' @
        jsx_child (opt_chain u (\<lambda>x. city (address x))) @ '', '' @
        jsx_child (opt_chain u (\<lambda>x. zipcode (address x)))\<rparr>"

definition render_map :: "User option \<Rightarrow> map_region" where
  "render_map u =
     (if js_truthy (js_and (opt_chain u (\<lambda>x. lat (geo (address x))))
                           (opt_chain u (\<lambda>x. lng (geo (address x)))))
      then UserMap
      else MapPlaceholder ''Map data not available'')"

definition render_post :: "Post \<Rightarrow> post_card" where
  "render_post post =
     \<lparr>card_key = post_id post,
      link_href = TemplateNumber ''/posts/'' (post_id post),
      link_text = title post,
      card_body = body post\<rparr>"

definition render_posts :: "state \<Rightarrow> posts_section" where
  "render_posts s =
     (if loadingPosts s then PostsSpinner ''Loading posts...''
      else if js_truthy (errorPosts s) then PostsError (jsx_child (errorPosts s))
      else PostsGrid (map render_post (posts s)))"

definition render :: "state \<Rightarrow> view" where
  "render s =
     (if loadingUser s then UserSpinner ''Loading user...''
      else if js_truthy (errorUser s) then UserError (jsx_child (errorUser s))
      else MainPage (render_profile (user s)) (render_map (user s)) (render_posts s))"

text \<open>The regions of the page that a view shows; a view that is not the main page shows none.\<close>

definition shown_profile :: "view \<Rightarrow> profile_card option" where
  "shown_profile w = (case w of MainPage p m q \<Rightarrow> Some p | _ \<Rightarrow> None)"

definition shown_map :: "view \<Rightarrow> map_region option" where
  "shown_map w = (case w of MainPage p m q \<Rightarrow> Some m | _ \<Rightarrow> None)"

definition shown_posts :: "view \<Rightarrow> posts_section option" where
  "shown_posts w = (case w of MainPage p m q \<Rightarrow> Some q | _ \<Rightarrow> None)"

subsection \<open>The three states of a resource, in the words of the specification\<close>

text \<open>
  The specification speaks of each resource as pending, success with a payload, or
  failed with a message. On the six variables:
  \<^item> a resource is pending while its loading flag is set;
  \<^item> it has failed with a message when its error variable holds a message, that is a
    text that is not empty (the empty text is no message, as for a thrown value below);
  \<^item> it has succeeded with a payload when it is not loading, its error variable is
    null and its payload variable holds a payload: a user that is not null, or the array
    of posts (the variable of type \<open>Post[]\<close> always holds an array, and the
    empty array is a payload).
\<close>

definition holds_message :: "string option \<Rightarrow> bool" where
  "holds_message e = (case e of None \<Rightarrow> False | Some text \<Rightarrow> text \<noteq> [])"

definition user_pending :: "state \<Rightarrow> bool" where
  "user_pending s = loadingUser s"

definition user_success :: "state \<Rightarrow> bool" where
  "user_success s = (\<not> loadingUser s \<and> errorUser s = None \<and> user s \<noteq> None)"

definition user_failed :: "state \<Rightarrow> bool" where
  "user_failed s = holds_message (errorUser s)"

definition posts_pending :: "state \<Rightarrow> bool" where
  "posts_pending s = loadingPosts s"

definition posts_success :: "state \<Rightarrow> bool" where
  "posts_success s = (\<not> loadingPosts s \<and> errorPosts s = None)"

definition posts_failed :: "state \<Rightarrow> bool" where
  "posts_failed s = holds_message (errorPosts s)"

definition exactly_one :: "bool \<Rightarrow> bool \<Rightarrow> bool \<Rightarrow> bool" where
  "exactly_one a b c = ((a \<and> \<not> b \<and> \<not> c) \<or> (\<not> a \<and> b \<and> \<not> c) \<or> (\<not> a \<and> \<not> b \<and> c))"

text \<open>
  The specification's "the error carries no message": the thrown value is not an error
  object at all, or it is one whose message is empty.
\<close>

definition spec_carries_no_message :: "thrown \<Rightarrow> bool" where
  "spec_carries_no_message err = (case err of ErrorInstance message \<Rightarrow> message = [] | PlainValue \<Rightarrow> True)"

text \<open>What holds of a mounted view at every moment of its life.\<close>

definition lifetime_inv :: "view_instance \<Rightarrow> bool" where
  "lifetime_inv v =
     ((userInFlight v \<longrightarrow> loadingUser (st v)) \<and>
      (loadingUser (st v) \<longrightarrow> errorUser (st v) = None \<and> user (st v) = None) \<and>
      (errorUser (st v) \<noteq> None \<longrightarrow> user (st v) = None) \<and>
      (postsInFlight v \<longrightarrow> loadingPosts (st v)) \<and>
      (loadingPosts (st v) \<longrightarrow> errorPosts (st v) = None \<and> posts (st v) = []) \<and>
      (errorPosts (st v) \<noteq> None \<longrightarrow> posts (st v) = []) \<and>
      requests v = useEffect (ident v))"

subsection \<open>A user record for the concrete evaluations\<close>

text \<open>The first record that the remote interface serves, in the shape of the User interface.\<close>

definition sample_user :: User where
  "sample_user =
     \<lparr>user_id = 1, name = ''Leanne Graham'', username = ''Bret'', email = ''Sincere@april.biz'',
      phone = ''1-770-736-8031'', website = ''hildegard.org'',
      address = \<lparr>street = ''Kulas Light'', suite = ''Apt. 556'', city = ''Gwenborough'',
                 zipcode = ''92998-3874'', geo = \<lparr>lat = ''-37.3159'', lng = ''81.1496''\<rparr>\<rparr>\<rparr>"

section \<open>Properties\<close>

subsection \<open>Shared facts about the two continuations and the life of a view\<close>

lemma fetchUser_cases:
  "fetchUser settled s =
     (case try_block ''Failed to fetch user'' settled of
        Inr data \<Rightarrow> s\<lparr>user := data, loadingUser := False\<rparr>
      | Inl err \<Rightarrow> s\<lparr>errorUser := Some (catch_message err), loadingUser := False\<rparr>)"
  by (simp add: fetchUser_def split: sum.splits)

lemma fetchPosts_cases:
  "fetchPosts settled s =
     (case try_block ''Failed to fetch posts'' settled of
        Inr data \<Rightarrow> s\<lparr>posts := data, loadingPosts := False\<rparr>
      | Inl err \<Rightarrow> s\<lparr>errorPosts := Some (catch_message err), loadingPosts := False\<rparr>)"
  by (simp add: fetchPosts_def split: sum.splits)

lemma fetchUser_data:
  "try_block ''Failed to fetch user'' settled = Inr data \<Longrightarrow>
   fetchUser settled s = s\<lparr>user := data, loadingUser := False\<rparr>"
  by (simp add: fetchUser_cases)

lemma fetchPosts_data:
  "try_block ''Failed to fetch posts'' settled = Inr data \<Longrightarrow>
   fetchPosts settled s = s\<lparr>posts := data, loadingPosts := False\<rparr>"
  by (simp add: fetchPosts_cases)

lemma try_block_ok:
  "ok res \<Longrightarrow> try_block msg (Resolves res) = json res"
  by (simp add: try_block_def split: sum.splits)

lemma fetchUser_frame:
  "posts (fetchUser settled s) = posts s \<and>
   loadingPosts (fetchUser settled s) = loadingPosts s \<and>
   errorPosts (fetchUser settled s) = errorPosts s"
  by (simp add: fetchUser_cases split: sum.splits)

lemma fetchPosts_frame:
  "user (fetchPosts settled s) = user s \<and>
   loadingUser (fetchPosts settled s) = loadingUser s \<and>
   errorUser (fetchPosts settled s) = errorUser s"
  by (simp add: fetchPosts_cases split: sum.splits)

lemma lifetime_inv_mount: "lifetime_inv (mount i)"
  by (simp add: lifetime_inv_def mount_def initial_state_def)

lemma lifetime_inv_step: "lifetime_inv v \<Longrightarrow> lifetime_inv (step e v)"
  by (cases e) (auto simp: lifetime_inv_def fetchUser_cases fetchPosts_cases split: sum.splits)

lemma lifetime_inv_run: "lifetime_inv v \<Longrightarrow> lifetime_inv (run v es)"
  by (induction es arbitrary: v) (simp_all add: lifetime_inv_step)

lemma lifetime_inv_reachable: "lifetime_inv (run (mount i) es)"
  by (rule lifetime_inv_run) (rule lifetime_inv_mount)

lemma ident_step: "ident (step e v) = ident v"
  by (cases e) simp_all

lemma ident_run: "ident (run v es) = ident v"
  by (induction es arbitrary: v) (simp_all add: ident_step)

lemma requests_reachable: "requests (run (mount i) es) = useEffect i"
proof -
  have "requests (run (mount i) es) = useEffect (ident (run (mount i) es))"
    using lifetime_inv_reachable [of i es] by (simp add: lifetime_inv_def)
  also have "ident (run (mount i) es) = i"
    by (simp add: ident_run mount_def)
  finally show ?thesis .
qed

lemma render_map_iff:
  "render_map u =
     (if (case u of None \<Rightarrow> False
          | Some x \<Rightarrow> lat (geo (address x)) \<noteq> [] \<and> lng (geo (address x)) \<noteq> [])
      then UserMap else MapPlaceholder ''Map data not available'')"
  by (cases u) (simp_all add: render_map_def js_truthy_def js_and_def opt_chain_def)

subsection \<open>C1: what renders in each state of the user resource\<close>

text \<open>
  C1 (evaluation at the failing input). The claim wants a failed user fetch to show the
  error message and nothing else. When the fetch rejects with an error object whose
  message is the empty string, the handler stores the empty string, the renderer's test
  \<open>if (errorUser)\<close> finds it falsy, and the main page is rendered: an empty
  profile card, the map placeholder and the posts section.
\<close>

theorem C1_empty_message_shows_main_page:
  "errorUser (st (run (mount ''1'') [UserSettles (Rejects (ErrorInstance ''''))])) = Some '''' \<and>
   \<not> loadingUser (st (run (mount ''1'') [UserSettles (Rejects (ErrorInstance ''''))])) \<and>
   render (st (run (mount ''1'') [UserSettles (Rejects (ErrorInstance ''''))])) =
     MainPage
       \<lparr>heading = None, badge = None, email_href = ''mailto:undefined'', email_text = None,
        phone_text = None, website_href = ''http://undefined'', website_text = None,
        address_line = '', , , ''\<rparr>
       (MapPlaceholder ''Map data not available'')
       (PostsSpinner ''Loading posts...'')"
  by (simp add: mount_def initial_state_def fetchUser_def try_block_def catch_message_def
      render_def render_profile_def render_map_def render_posts_def js_truthy_def js_and_def
      opt_chain_def jsx_child_def template_hole_def)

subsection \<open>C2: the message stored when the try block throws\<close>

text \<open>
  C2 (as stated, refuted). An error object made without a message carries no message,
  yet the handler stores its empty message, not the fallback text: the handler asks
  whether the thrown value is an instance of \<open>Error\<close>, not whether it has a
  message.
\<close>

theorem C2_counterexample:
  "spec_carries_no_message (ErrorInstance '''') \<and>
   errorUser (fetchUser (Rejects (ErrorInstance '''')) initial_state) \<noteq>
     Some ''An unknown error occurred''"
  by (simp add: spec_carries_no_message_def fetchUser_def try_block_def catch_message_def
      initial_state_def)

text \<open>
  C2 (amended). Whatever the try block throws (the rejection of \<open>fetch\<close>, the
  error made for a response that is not ok, the rejection of \<open>res.json()\<close>), the
  resource's error text is set and its loading flag cleared, and nothing else changes.
  For an instance of \<open>Error\<close> the text is that error's message. For any other
  thrown value the text stored is exactly "An unknown error occurred", and that text is
  what is displayed: as the whole page for the user resource, in the posts section for
  the posts resource.
\<close>

theorem C2_thrown_message:
  fixes uo1 uo2 :: "User option outcome" and po1 po2 :: "Post list outcome"
  shows
  "(try_block ''Failed to fetch user'' uo1 = Inl (ErrorInstance m1) \<longrightarrow>
      fetchUser uo1 s = s\<lparr>errorUser := Some m1, loadingUser := False\<rparr>) \<and>
   (try_block ''Failed to fetch user'' uo2 = Inl PlainValue \<longrightarrow>
      fetchUser uo2 s = s\<lparr>errorUser := Some ''An unknown error occurred'', loadingUser := False\<rparr> \<and>
      render (fetchUser uo2 s) = UserError ''An unknown error occurred'') \<and>
   (try_block ''Failed to fetch posts'' po1 = Inl (ErrorInstance m2) \<longrightarrow>
      fetchPosts po1 s = s\<lparr>errorPosts := Some m2, loadingPosts := False\<rparr>) \<and>
   (try_block ''Failed to fetch posts'' po2 = Inl PlainValue \<longrightarrow>
      fetchPosts po2 s = s\<lparr>errorPosts := Some ''An unknown error occurred'', loadingPosts := False\<rparr> \<and>
      render_posts (fetchPosts po2 s) = PostsError ''An unknown error occurred'')"
  by (simp add: fetchUser_cases fetchPosts_cases catch_message_def render_def render_posts_def
      js_truthy_def jsx_child_def)

theorem C2_thrown_message_witness:
  "try_block ''Failed to fetch user'' (Rejects (ErrorInstance ''Load failed'') :: User option outcome) = Inl (ErrorInstance ''Load failed'') \<and>
   fetchUser (Rejects (ErrorInstance ''Load failed'')) initial_state =
     initial_state\<lparr>errorUser := Some ''Load failed'', loadingUser := False\<rparr> \<and>
   try_block ''Failed to fetch user'' (Resolves \<lparr>status = 200, json = Inl PlainValue\<rparr> :: User option outcome) = Inl PlainValue \<and>
   render (fetchUser (Resolves \<lparr>status = 200, json = Inl PlainValue\<rparr>) initial_state) =
     UserError ''An unknown error occurred'' \<and>
   try_block ''Failed to fetch posts'' (Resolves \<lparr>status = 500, json = Inr []\<rparr> :: Post list outcome) = Inl (ErrorInstance ''Failed to fetch posts'') \<and>
   fetchPosts (Resolves \<lparr>status = 500, json = Inr []\<rparr>) initial_state =
     initial_state\<lparr>errorPosts := Some ''Failed to fetch posts'', loadingPosts := False\<rparr> \<and>
   try_block ''Failed to fetch posts'' (Rejects PlainValue :: Post list outcome) = Inl PlainValue \<and>
   render_posts (fetchPosts (Rejects PlainValue) initial_state) =
     PostsError ''An unknown error occurred''"
proof -
  have h1: "try_block ''Failed to fetch user'' (Rejects (ErrorInstance ''Load failed'') :: User option outcome) = Inl (ErrorInstance ''Load failed'')"
    by (simp add: try_block_def)
  have h2: "try_block ''Failed to fetch user'' (Resolves \<lparr>status = 200, json = Inl PlainValue\<rparr> :: User option outcome) = Inl PlainValue"
    by (simp add: try_block_def ok_def)
  have h3: "try_block ''Failed to fetch posts'' (Resolves \<lparr>status = 500, json = Inr []\<rparr> :: Post list outcome) = Inl (ErrorInstance ''Failed to fetch posts'')"
    by (simp add: try_block_def ok_def)
  have h4: "try_block ''Failed to fetch posts'' (Rejects PlainValue :: Post list outcome) = Inl PlainValue"
    by (simp add: try_block_def)
  from h1 h2 h3 h4
    C2_thrown_message [of "Rejects (ErrorInstance ''Load failed'')" "''Load failed''" initial_state
      "Resolves \<lparr>status = 200, json = Inl PlainValue\<rparr>"
      "Resolves \<lparr>status = 500, json = Inr []\<rparr>" "''Failed to fetch posts''" "Rejects PlainValue"]
  show ?thesis by blast
qed

subsection \<open>C3: at most one of three states at every moment\<close>

text \<open>
  C3 (as stated, refuted). After the user fetch resolved ok with the body null, the
  user resource is not pending, has no message and has no payload: none of the three
  states holds. After the posts fetch threw an error object with an empty message, the
  posts resource is not pending, has no message, and has not succeeded: again none of
  the three states holds.
\<close>

theorem C3_counterexample:
  "\<not> exactly_one
      (user_pending (st (run (mount ''1'') [UserSettles (Resolves \<lparr>status = 200, json = Inr None\<rparr>)])))
      (user_success (st (run (mount ''1'') [UserSettles (Resolves \<lparr>status = 200, json = Inr None\<rparr>)])))
      (user_failed (st (run (mount ''1'') [UserSettles (Resolves \<lparr>status = 200, json = Inr None\<rparr>)]))) \<and>
   \<not> exactly_one
      (posts_pending (st (run (mount ''1'') [PostsSettles (Rejects (ErrorInstance ''''))])))
      (posts_success (st (run (mount ''1'') [PostsSettles (Rejects (ErrorInstance ''''))])))
      (posts_failed (st (run (mount ''1'') [PostsSettles (Rejects (ErrorInstance ''''))])))"
  by (simp add: exactly_one_def user_pending_def user_success_def user_failed_def
      posts_pending_def posts_success_def posts_failed_def holds_message_def
      mount_def initial_state_def fetchUser_def fetchPosts_def try_block_def ok_def
      catch_message_def)

text \<open>
  C3 (amended). At every moment of the life of a mounted view (after any sequence of
  settlements and re-renders, for any identifier), each of the two resources is in at
  most one of the states pending, success with a payload and failed with a message. It
  is in exactly one of them except when it has settled with neither a payload nor a
  message, and then it is in none: for the user, not loading with a null user and an
  error variable that is null (a response that was ok with the body null) or the empty
  text (a thrown error object with an empty message); for the posts, not loading with
  the initial empty array and the empty text in the error variable. The continuation of
  each fetch, whatever the fetch settled with, leaves its resource not pending.
\<close>

theorem C3_states_of_a_resource:
  "(exactly_one (user_pending (st (run (mount i) es))) (user_success (st (run (mount i) es)))
      (user_failed (st (run (mount i) es))) \<or>
    (\<not> user_pending (st (run (mount i) es)) \<and> \<not> user_success (st (run (mount i) es)) \<and>
     \<not> user_failed (st (run (mount i) es)) \<and> user (st (run (mount i) es)) = None \<and>
     (errorUser (st (run (mount i) es)) = None \<or> errorUser (st (run (mount i) es)) = Some ''''))) \<and>
   (exactly_one (posts_pending (st (run (mount i) es))) (posts_success (st (run (mount i) es)))
      (posts_failed (st (run (mount i) es))) \<or>
    (\<not> posts_pending (st (run (mount i) es)) \<and> \<not> posts_success (st (run (mount i) es)) \<and>
     \<not> posts_failed (st (run (mount i) es)) \<and> posts (st (run (mount i) es)) = [] \<and>
     errorPosts (st (run (mount i) es)) = Some '''')) \<and>
   \<not> user_pending (fetchUser uo s) \<and> \<not> posts_pending (fetchPosts po s)"
proof -
  have inv: "lifetime_inv (run (mount i) es)"
    by (rule lifetime_inv_reachable)
  have u: "exactly_one (user_pending (st (run (mount i) es))) (user_success (st (run (mount i) es)))
      (user_failed (st (run (mount i) es))) \<or>
    (\<not> user_pending (st (run (mount i) es)) \<and> \<not> user_success (st (run (mount i) es)) \<and>
     \<not> user_failed (st (run (mount i) es)) \<and> user (st (run (mount i) es)) = None \<and>
     (errorUser (st (run (mount i) es)) = None \<or> errorUser (st (run (mount i) es)) = Some ''''))"
    using inv
    by (cases "errorUser (st (run (mount i) es))")
      (auto simp: lifetime_inv_def exactly_one_def user_pending_def user_success_def
        user_failed_def holds_message_def)
  have p: "exactly_one (posts_pending (st (run (mount i) es))) (posts_success (st (run (mount i) es)))
      (posts_failed (st (run (mount i) es))) \<or>
    (\<not> posts_pending (st (run (mount i) es)) \<and> \<not> posts_success (st (run (mount i) es)) \<and>
     \<not> posts_failed (st (run (mount i) es)) \<and> posts (st (run (mount i) es)) = [] \<and>
     errorPosts (st (run (mount i) es)) = Some '''')"
    using inv
    by (cases "errorPosts (st (run (mount i) es))")
      (auto simp: lifetime_inv_def exactly_one_def posts_pending_def posts_success_def
        posts_failed_def holds_message_def)
  have c: "\<not> user_pending (fetchUser uo s) \<and> \<not> posts_pending (fetchPosts po s)"
    by (simp add: user_pending_def posts_pending_def fetchUser_cases fetchPosts_cases split: sum.splits)
  from u p c show ?thesis by blast
qed

theorem C3_states_of_a_resource_witness:
  "user (st (run (mount ''1'')
      [UserSettles (Resolves \<lparr>status = 200, json = Inr (Some sample_user)\<rparr>),
       PostsSettles (Resolves \<lparr>status = 404, json = Inr []\<rparr>)])) \<noteq> None \<and>
   errorPosts (st (run (mount ''1'')
      [UserSettles (Resolves \<lparr>status = 200, json = Inr (Some sample_user)\<rparr>),
       PostsSettles (Resolves \<lparr>status = 404, json = Inr []\<rparr>)])) \<noteq> Some '''' \<and>
   exactly_one
     (user_pending (st (run (mount ''1'')
        [UserSettles (Resolves \<lparr>status = 200, json = Inr (Some sample_user)\<rparr>),
         PostsSettles (Resolves \<lparr>status = 404, json = Inr []\<rparr>)])))
     (user_success (st (run (mount ''1'')
        [UserSettles (Resolves \<lparr>status = 200, json = Inr (Some sample_user)\<rparr>),
         PostsSettles (Resolves \<lparr>status = 404, json = Inr []\<rparr>)])))
     (user_failed (st (run (mount ''1'')
        [UserSettles (Resolves \<lparr>status = 200, json = Inr (Some sample_user)\<rparr>),
         PostsSettles (Resolves \<lparr>status = 404, json = Inr []\<rparr>)]))) \<and>
   exactly_one
     (posts_pending (st (run (mount ''1'')
        [UserSettles (Resolves \<lparr>status = 200, json = Inr (Some sample_user)\<rparr>),
         PostsSettles (Resolves \<lparr>status = 404, json = Inr []\<rparr>)])))
     (posts_success (st (run (mount ''1'')
        [UserSettles (Resolves \<lparr>status = 200, json = Inr (Some sample_user)\<rparr>),
         PostsSettles (Resolves \<lparr>status = 404, json = Inr []\<rparr>)])))
     (posts_failed (st (run (mount ''1'')
        [UserSettles (Resolves \<lparr>status = 200, json = Inr (Some sample_user)\<rparr>),
         PostsSettles (Resolves \<lparr>status = 404, json = Inr []\<rparr>)]))) \<and>
   user_success (st (run (mount ''1'')
      [UserSettles (Resolves \<lparr>status = 200, json = Inr (Some sample_user)\<rparr>),
       PostsSettles (Resolves \<lparr>status = 404, json = Inr []\<rparr>)])) \<and>
   posts_failed (st (run (mount ''1'')
      [UserSettles (Resolves \<lparr>status = 200, json = Inr (Some sample_user)\<rparr>),
       PostsSettles (Resolves \<lparr>status = 404, json = Inr []\<rparr>)]))"
proof -
  have h1: "user (st (run (mount ''1'')
      [UserSettles (Resolves \<lparr>status = 200, json = Inr (Some sample_user)\<rparr>),
       PostsSettles (Resolves \<lparr>status = 404, json = Inr []\<rparr>)])) \<noteq> None"
    by (simp add: mount_def fetchUser_cases fetchPosts_cases try_block_def ok_def)
  have h2: "errorPosts (st (run (mount ''1'')
      [UserSettles (Resolves \<lparr>status = 200, json = Inr (Some sample_user)\<rparr>),
       PostsSettles (Resolves \<lparr>status = 404, json = Inr []\<rparr>)])) \<noteq> Some ''''"
    by (simp add: mount_def fetchUser_cases fetchPosts_cases try_block_def ok_def catch_message_def)
  have h3: "user_success (st (run (mount ''1'')
      [UserSettles (Resolves \<lparr>status = 200, json = Inr (Some sample_user)\<rparr>),
       PostsSettles (Resolves \<lparr>status = 404, json = Inr []\<rparr>)]))"
    by (simp add: user_success_def mount_def initial_state_def fetchUser_cases fetchPosts_cases
        try_block_def ok_def)
  have h4: "posts_failed (st (run (mount ''1'')
      [UserSettles (Resolves \<lparr>status = 200, json = Inr (Some sample_user)\<rparr>),
       PostsSettles (Resolves \<lparr>status = 404, json = Inr []\<rparr>)]))"
    by (simp add: posts_failed_def holds_message_def mount_def fetchUser_cases fetchPosts_cases
        try_block_def ok_def catch_message_def)
  from h1 h2 h3 h4
    C3_states_of_a_resource [of "''1''"
      "[UserSettles (Resolves \<lparr>status = 200, json = Inr (Some sample_user)\<rparr>),
        PostsSettles (Resolves \<lparr>status = 404, json = Inr []\<rparr>)]"]
  show ?thesis by blast
qed

subsection \<open>C4: the requests of one mounted view\<close>

text \<open>
  C4 (as stated, refuted). For the empty identifier the effect returns before it calls
  either operation: no request is issued, so the number of requests to each endpoint
  is not one.
\<close>

theorem C4_counterexample:
  "requests (mount '''') = [] \<and>
   count_list (requests (mount '''')) (user_url '''') \<noteq> 1 \<and>
   count_list (requests (mount '''')) (posts_url '''') \<noteq> 1"
  by (simp add: mount_def useEffect_def)

text \<open>
  C4 (amended). For every identifier that is not empty, the requests issued during the
  whole life of the mounted view are the one to the user endpoint followed by the one
  to the posts endpoint: each endpoint is requested exactly once, and no settlement or
  re-render adds a request. For the empty identifier no request is issued during the
  whole life of the view.
\<close>

theorem C4_one_request_each:
  "(i \<noteq> [] \<longrightarrow>
      requests (run (mount i) es) =
        [''https://jsonplaceholder.typicode.com/users/'' @ i,
         ''https://jsonplaceholder.typicode.com/posts?userId='' @ i] \<and>
      count_list (requests (run (mount i) es)) (user_url i) = 1 \<and>
      count_list (requests (run (mount i) es)) (posts_url i) = 1) \<and>
   requests (run (mount []) es) = []"
  by (simp add: requests_reachable useEffect_def user_url_def posts_url_def)

theorem C4_one_request_each_witness:
  "''7'' \<noteq> [] \<and>
   requests (run (mount ''7'') [Rerender, UserSettles (Rejects PlainValue), Rerender]) =
     [''https://jsonplaceholder.typicode.com/users/7'',
      ''https://jsonplaceholder.typicode.com/posts?userId=7''] \<and>
   count_list (requests (run (mount ''7'') [Rerender, UserSettles (Rejects PlainValue), Rerender])) (user_url ''7'') = 1 \<and>
   count_list (requests (run (mount ''7'') [Rerender, UserSettles (Rejects PlainValue), Rerender])) (posts_url ''7'') = 1 \<and>
   requests (run (mount []) [Rerender, UserSettles (Rejects PlainValue), Rerender]) = []"
proof -
  have h: "''7'' \<noteq> []" by simp
  note inst = C4_one_request_each [of "''7''" "[Rerender, UserSettles (Rejects PlainValue), Rerender]",
      unfolded append_Cons append_Nil]
  from h inst show ?thesis by blast
qed

subsection \<open>C5: the map region\<close>

text \<open>
  C5. Whenever the main page renders, its map region is the map collaborator if and only
  if the user is present and both its latitude and its longitude are non-empty strings;
  in every other case the region is the text "Map data not available". A user whose
  latitude and longitude are both the empty string gets the placeholder.
\<close>

theorem C5_map_region:
  "(render s = MainPage p m q \<longrightarrow>
      m = (if (case user s of None \<Rightarrow> False
               | Some x \<Rightarrow> lat (geo (address x)) \<noteq> [] \<and> lng (geo (address x)) \<noteq> [])
           then UserMap else MapPlaceholder ''Map data not available'')) \<and>
   render_map u =
     (if (case u of None \<Rightarrow> False
          | Some x \<Rightarrow> lat (geo (address x)) \<noteq> [] \<and> lng (geo (address x)) \<noteq> [])
      then UserMap else MapPlaceholder ''Map data not available'') \<and>
   render_map (Some (y\<lparr>address := (address y)\<lparr>geo := \<lparr>lat = '''', lng = ''''\<rparr>\<rparr>\<rparr>)) =
     MapPlaceholder ''Map data not available''"
  by (simp add: render_map_iff render_def split: if_splits)

theorem C5_map_region_witness:
  "render (st (run (mount ''1'') [UserSettles (Resolves \<lparr>status = 200, json = Inr (Some sample_user)\<rparr>)])) =
     MainPage (render_profile (Some sample_user)) UserMap (PostsSpinner ''Loading posts...'') \<and>
   UserMap =
     (if (case user (st (run (mount ''1'') [UserSettles (Resolves \<lparr>status = 200, json = Inr (Some sample_user)\<rparr>)])) of
            None \<Rightarrow> False
          | Some x \<Rightarrow> lat (geo (address x)) \<noteq> [] \<and> lng (geo (address x)) \<noteq> [])
      then UserMap else MapPlaceholder ''Map data not available'')"
proof -
  have h: "render (st (run (mount ''1'') [UserSettles (Resolves \<lparr>status = 200, json = Inr (Some sample_user)\<rparr>)])) =
     MainPage (render_profile (Some sample_user)) UserMap (PostsSpinner ''Loading posts...'')"
    by (simp add: mount_def initial_state_def fetchUser_def try_block_def ok_def render_def
        render_posts_def render_map_def js_truthy_def js_and_def opt_chain_def sample_user_def)
  from h C5_map_region [of "st (run (mount ''1'') [UserSettles (Resolves \<lparr>status = 200, json = Inr (Some sample_user)\<rparr>)])"
      "render_profile (Some sample_user)" UserMap "PostsSpinner ''Loading posts...''"]
  show ?thesis by blast
qed

subsection \<open>C6: a response that is not ok\<close>

text \<open>
  C6. When a fetch resolves with a status outside 200 to 299, the resource fails with
  the fixed message, "Failed to fetch user" for the user and "Failed to fetch posts" for
  the posts, whatever the body of the response would have parsed to (or failed to parse
  to); the rest of the state is untouched.
\<close>

theorem C6_not_ok_fixed_message:
  "\<not> (200 \<le> n \<and> n \<le> 299) \<Longrightarrow>
   fetchUser (Resolves \<lparr>status = n, json = user_body\<rparr>) s =
     s\<lparr>errorUser := Some ''Failed to fetch user'', loadingUser := False\<rparr> \<and>
   fetchPosts (Resolves \<lparr>status = n, json = posts_body\<rparr>) s =
     s\<lparr>errorPosts := Some ''Failed to fetch posts'', loadingPosts := False\<rparr> \<and>
   user_failed (fetchUser (Resolves \<lparr>status = n, json = user_body\<rparr>) s) \<and>
   \<not> user_pending (fetchUser (Resolves \<lparr>status = n, json = user_body\<rparr>) s) \<and>
   posts_failed (fetchPosts (Resolves \<lparr>status = n, json = posts_body\<rparr>) s) \<and>
   \<not> posts_pending (fetchPosts (Resolves \<lparr>status = n, json = posts_body\<rparr>) s)"
  by (simp add: fetchUser_cases fetchPosts_cases try_block_def ok_def catch_message_def
      user_failed_def user_pending_def posts_failed_def posts_pending_def holds_message_def)

theorem C6_not_ok_fixed_message_witness:
  "\<not> (200 \<le> (404::nat) \<and> (404::nat) \<le> 299) \<and>
   fetchUser (Resolves \<lparr>status = 404, json = Inr None\<rparr>) initial_state =
     initial_state\<lparr>errorUser := Some ''Failed to fetch user'', loadingUser := False\<rparr> \<and>
   fetchPosts (Resolves \<lparr>status = 404, json = Inl (ErrorInstance ''Unexpected token'')\<rparr>) initial_state =
     initial_state\<lparr>errorPosts := Some ''Failed to fetch posts'', loadingPosts := False\<rparr>"
proof -
  have h: "\<not> (200 \<le> (404::nat) \<and> (404::nat) \<le> 299)" by simp
  from h C6_not_ok_fixed_message [OF h, of "Inr None" initial_state "Inl (ErrorInstance ''Unexpected token'')"]
  show ?thesis by blast
qed

subsection \<open>C7: how far the two fetches are independent\<close>

text \<open>
  C7 (as stated, refuted). With the same posts, fetched successfully, the posts section
  is absent from the page when the user fetch fails and present when it does not: the
  failure of the user fetch does affect the rendering of the posts.
\<close>

theorem C7_counterexample:
  "shown_posts (render (st (run (mount ''1'')
      [PostsSettles (Resolves \<lparr>status = 200, json = Inr [\<lparr>post_id = 1, title = ''T1'', body = ''B1''\<rparr>]\<rparr>),
       UserSettles (Resolves \<lparr>status = 404, json = Inr None\<rparr>)]))) = None \<and>
   shown_posts (render (st (run (mount ''1'')
      [PostsSettles (Resolves \<lparr>status = 200, json = Inr [\<lparr>post_id = 1, title = ''T1'', body = ''B1''\<rparr>]\<rparr>),
       UserSettles (Resolves \<lparr>status = 200, json = Inr None\<rparr>)]))) =
     Some (PostsGrid [\<lparr>card_key = 1, link_href = TemplateNumber ''/posts/'' 1, link_text = ''T1'', card_body = ''B1''\<rparr>])"
  by (simp add: mount_def initial_state_def fetchUser_def fetchPosts_def try_block_def ok_def
      catch_message_def render_def render_posts_def render_post_def js_truthy_def jsx_child_def
      shown_posts_def)

text \<open>
  C7 (amended). The two fetch operations are independent in state: the continuation of
  each, whatever it settled with, changes nothing of the other resource, so the posts
  section computed from the state is the same before and after the user fetch settles,
  and the profile and the map shown are the same before and after the posts fetch
  settles (a posts failure included). In rendering the user resource gates the page:
  while a non-empty user error message is displayed, no posts section is rendered. When
  the user fetch has succeeded and the posts fetch is still pending, the profile and the
  map render and the posts section is its own spinner labeled "Loading posts...".
\<close>

theorem C7_independent_fetches:
  fixes uo uo' :: "User option outcome" and po :: "Post list outcome"
  shows
  "posts (fetchUser uo s) = posts s \<and>
   loadingPosts (fetchUser uo s) = loadingPosts s \<and>
   errorPosts (fetchUser uo s) = errorPosts s \<and>
   render_posts (fetchUser uo s) = render_posts s \<and>
   user (fetchPosts po s) = user s \<and>
   loadingUser (fetchPosts po s) = loadingUser s \<and>
   errorUser (fetchPosts po s) = errorUser s \<and>
   shown_profile (render (fetchPosts po s)) = shown_profile (render s) \<and>
   shown_map (render (fetchPosts po s)) = shown_map (render s) \<and>
   (\<not> loadingUser t \<and> errorUser t = Some m \<and> m \<noteq> [] \<longrightarrow>
      render t = UserError m \<and> shown_posts (render t) = None) \<and>
   (try_block ''Failed to fetch user'' uo' = Inr data \<and> errorUser r = None \<and> loadingPosts r \<longrightarrow>
      render (fetchUser uo' r) =
        MainPage (render_profile data) (render_map data) (PostsSpinner ''Loading posts...''))"
proof -
  have a: "render_posts (fetchUser uo s) = render_posts s"
    by (simp add: render_posts_def fetchUser_frame)
  have b: "shown_profile (render (fetchPosts po s)) = shown_profile (render s)"
    by (simp add: render_def shown_profile_def fetchPosts_frame)
  have c: "shown_map (render (fetchPosts po s)) = shown_map (render s)"
    by (simp add: render_def shown_map_def fetchPosts_frame)
  have d: "\<not> loadingUser t \<and> errorUser t = Some m \<and> m \<noteq> [] \<longrightarrow>
      render t = UserError m \<and> shown_posts (render t) = None"
    by (simp add: render_def js_truthy_def jsx_child_def shown_posts_def)
  have e: "try_block ''Failed to fetch user'' uo' = Inr data \<and> errorUser r = None \<and> loadingPosts r \<longrightarrow>
      render (fetchUser uo' r) =
        MainPage (render_profile data) (render_map data) (PostsSpinner ''Loading posts...'')"
    by (simp add: fetchUser_cases render_def render_posts_def js_truthy_def)
  from a b c d e fetchUser_frame [of uo s] fetchPosts_frame [of po s] show ?thesis
    by blast
qed

theorem C7_independent_fetches_witness:
  "\<not> loadingUser (initial_state\<lparr>loadingUser := False, errorUser := Some ''Failed to fetch user''\<rparr>) \<and>
   errorUser (initial_state\<lparr>loadingUser := False, errorUser := Some ''Failed to fetch user''\<rparr>) =
     Some ''Failed to fetch user'' \<and>
   ''Failed to fetch user'' \<noteq> [] \<and>
   shown_posts (render (initial_state\<lparr>loadingUser := False, errorUser := Some ''Failed to fetch user''\<rparr>)) = None \<and>
   try_block ''Failed to fetch user'' (Resolves \<lparr>status = 200, json = Inr (Some sample_user)\<rparr>) = Inr (Some sample_user) \<and>
   errorUser initial_state = None \<and> loadingPosts initial_state \<and>
   render (fetchUser (Resolves \<lparr>status = 200, json = Inr (Some sample_user)\<rparr>) initial_state) =
     MainPage (render_profile (Some sample_user)) (render_map (Some sample_user)) (PostsSpinner ''Loading posts...'')"
proof -
  have h1: "\<not> loadingUser (initial_state\<lparr>loadingUser := False, errorUser := Some ''Failed to fetch user''\<rparr>) \<and>
     errorUser (initial_state\<lparr>loadingUser := False, errorUser := Some ''Failed to fetch user''\<rparr>) =
       Some ''Failed to fetch user'' \<and> ''Failed to fetch user'' \<noteq> []"
    by simp
  have h2: "try_block ''Failed to fetch user'' (Resolves \<lparr>status = 200, json = Inr (Some sample_user)\<rparr>) = Inr (Some sample_user) \<and>
     errorUser initial_state = None \<and> loadingPosts initial_state"
    by (simp add: try_block_def ok_def initial_state_def)
  from h1 h2 C7_independent_fetches [where t = "initial_state\<lparr>loadingUser := False, errorUser := Some ''Failed to fetch user''\<rparr>"
      and m = "''Failed to fetch user''" and uo' = "Resolves \<lparr>status = 200, json = Inr (Some sample_user)\<rparr>"
      and data = "Some sample_user" and r = initial_state]
  show ?thesis by blast
qed

subsection \<open>C8: an empty array of posts\<close>

text \<open>
  C8. When the posts fetch of a mounted view resolves ok with an empty array, the posts
  resource is in the success state, neither failed nor pending, the posts section is
  the empty grid (no error message, no spinner), and every main page rendered from that
  state carries that empty grid.
\<close>

theorem C8_empty_posts_success:
  assumes "postsInFlight (run (mount i) es)" and "ok res" and "json res = Inr []"
  shows
  "posts_success (st (step (PostsSettles (Resolves res)) (run (mount i) es))) \<and>
   \<not> posts_failed (st (step (PostsSettles (Resolves res)) (run (mount i) es))) \<and>
   \<not> posts_pending (st (step (PostsSettles (Resolves res)) (run (mount i) es))) \<and>
   posts (st (step (PostsSettles (Resolves res)) (run (mount i) es))) = [] \<and>
   render_posts (st (step (PostsSettles (Resolves res)) (run (mount i) es))) = PostsGrid [] \<and>
   (render (st (step (PostsSettles (Resolves res)) (run (mount i) es))) = MainPage p m q \<longrightarrow>
      q = PostsGrid [])"
proof -
  let ?v = "run (mount i) es"
  have "lifetime_inv ?v" by (rule lifetime_inv_reachable)
  with assms(1) have e: "errorPosts (st ?v) = None"
    by (simp add: lifetime_inv_def)
  have t: "try_block ''Failed to fetch posts'' (Resolves res) = Inr []"
    using assms(2,3) by (simp add: try_block_ok)
  have s: "st (step (PostsSettles (Resolves res)) ?v) = (st ?v)\<lparr>posts := [], loadingPosts := False\<rparr>"
    using assms(1) t by (simp add: fetchPosts_data)
  show ?thesis
    unfolding s using e
    by (simp add: posts_success_def posts_failed_def posts_pending_def holds_message_def render_posts_def
        render_def js_truthy_def split: if_splits)
qed

theorem C8_empty_posts_success_witness:
  "postsInFlight (run (mount ''1'') [UserSettles (Resolves \<lparr>status = 200, json = Inr (Some sample_user)\<rparr>)]) \<and>
   ok (\<lparr>status = 200, json = Inr []\<rparr> :: Post list response) \<and>
   json (\<lparr>status = 200, json = Inr []\<rparr> :: Post list response) = Inr [] \<and>
   render (st (step (PostsSettles (Resolves \<lparr>status = 200, json = Inr []\<rparr>))
      (run (mount ''1'') [UserSettles (Resolves \<lparr>status = 200, json = Inr (Some sample_user)\<rparr>)]))) =
     MainPage (render_profile (Some sample_user)) UserMap (PostsGrid []) \<and>
   posts_success (st (step (PostsSettles (Resolves \<lparr>status = 200, json = Inr []\<rparr>))
      (run (mount ''1'') [UserSettles (Resolves \<lparr>status = 200, json = Inr (Some sample_user)\<rparr>)])))"
proof -
  have h1: "postsInFlight (run (mount ''1'') [UserSettles (Resolves \<lparr>status = 200, json = Inr (Some sample_user)\<rparr>)])"
    by (simp add: mount_def)
  have h2: "ok (\<lparr>status = 200, json = Inr []\<rparr> :: Post list response)"
    by (simp add: ok_def)
  have h3: "json (\<lparr>status = 200, json = Inr []\<rparr> :: Post list response) = Inr []"
    by simp
  have h4: "render (st (step (PostsSettles (Resolves \<lparr>status = 200, json = Inr []\<rparr>))
      (run (mount ''1'') [UserSettles (Resolves \<lparr>status = 200, json = Inr (Some sample_user)\<rparr>)]))) =
     MainPage (render_profile (Some sample_user)) UserMap (PostsGrid [])"
    by (simp add: mount_def initial_state_def fetchUser_def fetchPosts_def try_block_def ok_def
        render_def render_posts_def render_map_def js_truthy_def js_and_def opt_chain_def sample_user_def)
  from h1 h2 h3 h4 C8_empty_posts_success [OF h1 h2 h3, of "render_profile (Some sample_user)" UserMap "PostsGrid []"]
  show ?thesis by blast
qed

subsection \<open>C9: a failure leaves the payload alone\<close>

text \<open>
  C9. At every moment of the life of a mounted view, a user resource that has failed
  still has the payload null and a posts resource that has failed still has the empty
  array it started with; and the continuation of a fetch whose try block threw changes
  only the error text and the loading flag of its own resource.
\<close>

theorem C9_failure_keeps_payload:
  fixes uo :: "User option outcome" and po :: "Post list outcome"
  shows
  "(errorUser (st (run (mount i) es)) \<noteq> None \<longrightarrow> user (st (run (mount i) es)) = None) \<and>
   (errorPosts (st (run (mount i) es)) \<noteq> None \<longrightarrow> posts (st (run (mount i) es)) = []) \<and>
   (try_block ''Failed to fetch user'' uo = Inl err \<longrightarrow>
      fetchUser uo s = s\<lparr>errorUser := Some (catch_message err), loadingUser := False\<rparr> \<and>
      user (fetchUser uo s) = user s) \<and>
   (try_block ''Failed to fetch posts'' po = Inl err' \<longrightarrow>
      fetchPosts po s = s\<lparr>errorPosts := Some (catch_message err'), loadingPosts := False\<rparr> \<and>
      posts (fetchPosts po s) = posts s)"
proof -
  have "lifetime_inv (run (mount i) es)" by (rule lifetime_inv_reachable)
  then have a: "(errorUser (st (run (mount i) es)) \<noteq> None \<longrightarrow> user (st (run (mount i) es)) = None) \<and>
     (errorPosts (st (run (mount i) es)) \<noteq> None \<longrightarrow> posts (st (run (mount i) es)) = [])"
    by (simp add: lifetime_inv_def)
  have b: "try_block ''Failed to fetch user'' uo = Inl err \<longrightarrow>
      fetchUser uo s = s\<lparr>errorUser := Some (catch_message err), loadingUser := False\<rparr> \<and>
      user (fetchUser uo s) = user s"
    by (simp add: fetchUser_cases)
  have c: "try_block ''Failed to fetch posts'' po = Inl err' \<longrightarrow>
      fetchPosts po s = s\<lparr>errorPosts := Some (catch_message err'), loadingPosts := False\<rparr> \<and>
      posts (fetchPosts po s) = posts s"
    by (simp add: fetchPosts_cases)
  from a b c show ?thesis by blast
qed

theorem C9_failure_keeps_payload_witness:
  "errorUser (st (run (mount ''1'')
      [UserSettles (Rejects PlainValue), PostsSettles (Resolves \<lparr>status = 404, json = Inr []\<rparr>)])) \<noteq> None \<and>
   user (st (run (mount ''1'')
      [UserSettles (Rejects PlainValue), PostsSettles (Resolves \<lparr>status = 404, json = Inr []\<rparr>)])) = None \<and>
   errorPosts (st (run (mount ''1'')
      [UserSettles (Rejects PlainValue), PostsSettles (Resolves \<lparr>status = 404, json = Inr []\<rparr>)])) \<noteq> None \<and>
   posts (st (run (mount ''1'')
      [UserSettles (Rejects PlainValue), PostsSettles (Resolves \<lparr>status = 404, json = Inr []\<rparr>)])) = [] \<and>
   try_block ''Failed to fetch user'' (Rejects PlainValue :: User option outcome) = Inl PlainValue \<and>
   fetchUser (Rejects PlainValue) initial_state =
     initial_state\<lparr>errorUser := Some (catch_message PlainValue), loadingUser := False\<rparr> \<and>
   try_block ''Failed to fetch posts'' (Resolves \<lparr>status = 404, json = Inr []\<rparr> :: Post list outcome) =
     Inl (ErrorInstance ''Failed to fetch posts'') \<and>
   fetchPosts (Resolves \<lparr>status = 404, json = Inr []\<rparr>) initial_state =
     initial_state\<lparr>errorPosts := Some (catch_message (ErrorInstance ''Failed to fetch posts'')),
       loadingPosts := False\<rparr>"
proof -
  have h1: "errorUser (st (run (mount ''1'')
      [UserSettles (Rejects PlainValue), PostsSettles (Resolves \<lparr>status = 404, json = Inr []\<rparr>)])) \<noteq> None"
    by (simp add: mount_def fetchUser_cases fetchPosts_cases try_block_def ok_def)
  have h2: "errorPosts (st (run (mount ''1'')
      [UserSettles (Rejects PlainValue), PostsSettles (Resolves \<lparr>status = 404, json = Inr []\<rparr>)])) \<noteq> None"
    by (simp add: mount_def fetchUser_cases fetchPosts_cases try_block_def ok_def)
  have h3: "try_block ''Failed to fetch user'' (Rejects PlainValue :: User option outcome) = Inl PlainValue"
    by (simp add: try_block_def)
  have h4: "try_block ''Failed to fetch posts'' (Resolves \<lparr>status = 404, json = Inr []\<rparr> :: Post list outcome) =
     Inl (ErrorInstance ''Failed to fetch posts'')"
    by (simp add: try_block_def ok_def)
  from h1 h2 h3 h4
    C9_failure_keeps_payload [of "''1''"
      "[UserSettles (Rejects PlainValue), PostsSettles (Resolves \<lparr>status = 404, json = Inr []\<rparr>)]"
      "Rejects PlainValue" PlainValue initial_state
      "Resolves \<lparr>status = 404, json = Inr []\<rparr>" "ErrorInstance ''Failed to fetch posts''"]
  show ?thesis by blast
qed

subsection \<open>C10: a successful fetch that leaves the user null\<close>

text \<open>
  C10. When the user fetch of a mounted view resolves ok with the body null, the user
  stays null without any error, and the renderer still yields the main page: every
  access through the optional chain is undefined, so the texts of the profile card are
  empty (the two template literals print the word undefined after their prefix), the
  map region is "Map data not available", and the posts section is rendered as for any
  other user. The same holds of every state that is not loading, has no user error and
  has a null user.
\<close>

theorem C10_null_user_renders:
  assumes "userInFlight (run (mount i) es)" and "ok res" and "json res = Inr None"
    and "\<not> loadingUser s" and "errorUser s = None" and "user s = None"
  shows
  "user (st (step (UserSettles (Resolves res)) (run (mount i) es))) = None \<and>
   \<not> loadingUser (st (step (UserSettles (Resolves res)) (run (mount i) es))) \<and>
   errorUser (st (step (UserSettles (Resolves res)) (run (mount i) es))) = None \<and>
   render (st (step (UserSettles (Resolves res)) (run (mount i) es))) =
     MainPage
       \<lparr>heading = None, badge = None, email_href = ''mailto:undefined'', email_text = None,
        phone_text = None, website_href = ''http://undefined'', website_text = None,
        address_line = '', , , ''\<rparr>
       (MapPlaceholder ''Map data not available'')
       (render_posts (st (run (mount i) es))) \<and>
   opt_chain (user s) path = None \<and>
   render s =
     MainPage
       \<lparr>heading = None, badge = None, email_href = ''mailto:undefined'', email_text = None,
        phone_text = None, website_href = ''http://undefined'', website_text = None,
        address_line = '', , , ''\<rparr>
       (MapPlaceholder ''Map data not available'')
       (render_posts s)"
proof -
  let ?v = "run (mount i) es"
  have "lifetime_inv ?v" by (rule lifetime_inv_reachable)
  with assms(1) have e: "errorUser (st ?v) = None"
    by (simp add: lifetime_inv_def)
  have t: "try_block ''Failed to fetch user'' (Resolves res) = Inr None"
    using assms(2,3) by (simp add: try_block_ok)
  have s: "st (step (UserSettles (Resolves res)) ?v) = (st ?v)\<lparr>user := None, loadingUser := False\<rparr>"
    using assms(1) t by (simp add: fetchUser_data)
  have a: "user (st (step (UserSettles (Resolves res)) ?v)) = None \<and>
     \<not> loadingUser (st (step (UserSettles (Resolves res)) ?v)) \<and>
     errorUser (st (step (UserSettles (Resolves res)) ?v)) = None"
    unfolding s using e by simp
  have b: "render (st (step (UserSettles (Resolves res)) ?v)) =
     MainPage
       \<lparr>heading = None, badge = None, email_href = ''mailto:undefined'', email_text = None,
        phone_text = None, website_href = ''http://undefined'', website_text = None,
        address_line = '', , , ''\<rparr>
       (MapPlaceholder ''Map data not available'')
       (render_posts (st ?v))"
    unfolding s using e
    by (simp add: render_def render_profile_def render_map_def render_posts_def js_truthy_def
        js_and_def opt_chain_def jsx_child_def template_hole_def)
  have c: "opt_chain (user s) path = None"
    using assms(6) by (simp add: opt_chain_def)
  have d: "render s =
     MainPage
       \<lparr>heading = None, badge = None, email_href = ''mailto:undefined'', email_text = None,
        phone_text = None, website_href = ''http://undefined'', website_text = None,
        address_line = '', , , ''\<rparr>
       (MapPlaceholder ''Map data not available'')
       (render_posts s)"
    using assms(4,5,6)
    by (simp add: render_def render_profile_def render_map_def js_truthy_def
        js_and_def opt_chain_def jsx_child_def template_hole_def)
  from a b c d show ?thesis by blast
qed

theorem C10_null_user_renders_witness:
  "userInFlight (run (mount ''1'') []) \<and>
   ok (\<lparr>status = 200, json = Inr None\<rparr> :: User option response) \<and>
   json (\<lparr>status = 200, json = Inr None\<rparr> :: User option response) = Inr None \<and>
   \<not> loadingUser (initial_state\<lparr>loadingUser := False\<rparr>) \<and>
   errorUser (initial_state\<lparr>loadingUser := False\<rparr>) = None \<and>
   user (initial_state\<lparr>loadingUser := False\<rparr>) = None \<and>
   render (st (step (UserSettles (Resolves \<lparr>status = 200, json = Inr None\<rparr>)) (run (mount ''1'') []))) =
     MainPage
       \<lparr>heading = None, badge = None, email_href = ''mailto:undefined'', email_text = None,
        phone_text = None, website_href = ''http://undefined'', website_text = None,
        address_line = '', , , ''\<rparr>
       (MapPlaceholder ''Map data not available'')
       (render_posts (st (run (mount ''1'') [])))"
proof -
  have h1: "userInFlight (run (mount ''1'') [])"
    by (simp add: mount_def)
  have h2: "ok (\<lparr>status = 200, json = Inr None\<rparr> :: User option response)"
    by (simp add: ok_def)
  have h3: "json (\<lparr>status = 200, json = Inr None\<rparr> :: User option response) = Inr None"
    by simp
  have h4: "\<not> loadingUser (initial_state\<lparr>loadingUser := False\<rparr>)"
    by simp
  have h5: "errorUser (initial_state\<lparr>loadingUser := False\<rparr>) = None"
    by (simp add: initial_state_def)
  have h6: "user (initial_state\<lparr>loadingUser := False\<rparr>) = None"
    by (simp add: initial_state_def)
  from h1 h2 h3 h4 h5 h6 C10_null_user_renders [OF h1 h2 h3 h4 h5 h6]
  show ?thesis by blast
qed

end
